theory Spec2Isabelle
  imports Main "HOL-Library.Sublist"
begin

chapter \<open>RequestExecutor of the HTTP test core\<close>

text \<open>
  A shallow embedding of \<^verbatim>\<open>src/http-test-core/RequestExecutor.ts\<close>: the class that
  substitutes the variables of a request, validates its URL, probes the server, builds the
  body (plain, JSON or multipart form data), dispatches the request and turns the answer,
  or the failure, into a response or a RequestError. A rejected promise and a thrown
  value are the left injection of a sum, a result the right one. Logging has no effect on
  a result and is left out.
\<close>

section \<open>JavaScript strings\<close>

text \<open>
  A JavaScript string is modelled as a \<^typ>\<open>string\<close>: each \<^typ>\<open>char\<close> stands for one
  code unit in the range 0..255. The line terminators and white space characters of
  ECMAScript with larger code units cannot occur in such a string.
\<close>

definition CR :: char where
  "CR = CHR 0x0D"

definition LF :: char where
  "LF = CHR 0x0A"

definition CRLF :: string where
  "CRLF = [CR, LF]"

text \<open>The characters the regular expression atom \<^verbatim>\<open>.\<close> does not match.\<close>

definition is_line_terminator :: "char \<Rightarrow> bool" where
  "is_line_terminator c = (c = LF \<or> c = CR)"

definition dot :: "char \<Rightarrow> bool" where
  "dot c = (\<not> is_line_terminator c)"

text \<open>White space as \<^verbatim>\<open>String.prototype.trim\<close> strips it: TAB, LF, VT, FF, CR, SP, NBSP.\<close>

definition is_js_space :: "char \<Rightarrow> bool" where
  "is_js_space c = (c \<in> set [CHR 0x09, CHR 0x0A, CHR 0x0B, CHR 0x0C, CHR 0x0D, CHR 0x20, CHR 0xA0])"

definition trim :: "string \<Rightarrow> string" where
  "trim s = rev (dropWhile is_js_space (rev (dropWhile is_js_space s)))"

text \<open>
  \<^verbatim>\<open>String.prototype.toLowerCase\<close> on code units below 256: the letters A to Z and the
  upper-case letters of Latin-1 (0xC0 to 0xDE but the multiplication sign 0xD7) have a
  lower-case form, 32 code units further.
\<close>

definition upper_case :: string where
  "upper_case =
     ''ABCDEFGHIJKLMNOPQRSTUVWXYZ'' @
     [CHR 0xC0, CHR 0xC1, CHR 0xC2, CHR 0xC3, CHR 0xC4, CHR 0xC5, CHR 0xC6, CHR 0xC7, CHR 0xC8, CHR 0xC9,
      CHR 0xCA, CHR 0xCB, CHR 0xCC, CHR 0xCD, CHR 0xCE, CHR 0xCF, CHR 0xD0, CHR 0xD1, CHR 0xD2, CHR 0xD3,
      CHR 0xD4, CHR 0xD5, CHR 0xD6, CHR 0xD8, CHR 0xD9, CHR 0xDA, CHR 0xDB, CHR 0xDC, CHR 0xDD, CHR 0xDE]"

definition lower_case :: string where
  "lower_case =
     ''abcdefghijklmnopqrstuvwxyz'' @
     [CHR 0xE0, CHR 0xE1, CHR 0xE2, CHR 0xE3, CHR 0xE4, CHR 0xE5, CHR 0xE6, CHR 0xE7, CHR 0xE8, CHR 0xE9,
      CHR 0xEA, CHR 0xEB, CHR 0xEC, CHR 0xED, CHR 0xEE, CHR 0xEF, CHR 0xF0, CHR 0xF1, CHR 0xF2, CHR 0xF3,
      CHR 0xF4, CHR 0xF5, CHR 0xF6, CHR 0xF8, CHR 0xF9, CHR 0xFA, CHR 0xFB, CHR 0xFC, CHR 0xFD, CHR 0xFE]"

definition toLowerCase_char :: "char \<Rightarrow> char" where
  "toLowerCase_char c =
     (case map_of (zip upper_case lower_case) c of Some l \<Rightarrow> l | None \<Rightarrow> c)"

definition toLowerCase :: "string \<Rightarrow> string" where
  "toLowerCase s = map toLowerCase_char s"

text \<open>\<^verbatim>\<open>s.includes(t)\<close>: \<open>t\<close> occurs in \<open>s\<close> as a contiguous substring.\<close>

fun includes_str :: "string \<Rightarrow> string \<Rightarrow> bool" where
  "includes_str [] t = (t = [])"
| "includes_str (c # cs) t = (prefix t (c # cs) \<or> includes_str cs t)"

text \<open>
  \<^verbatim>\<open>s.split(sep)\<close> for a string separator: \<open>split_from sep acc s\<close> scans \<open>s\<close> from the
  left, \<open>acc\<close> holding the piece read since the last separator. With the empty
  separator JavaScript splits between all code units.
\<close>

function split_from :: "string \<Rightarrow> string \<Rightarrow> string \<Rightarrow> string list" where
  "split_from sep acc [] = [acc]"
| "split_from sep acc (c # cs) =
     (if sep \<noteq> [] \<and> prefix sep (c # cs)
      then acc # split_from sep [] (drop (length sep) (c # cs))
      else split_from sep (acc @ [c]) cs)"
  by pat_completeness auto
termination
  by (relation "measure (\<lambda>(sep, acc, s). length s)") (auto simp: neq_Nil_conv)

definition split_str :: "string \<Rightarrow> string \<Rightarrow> string list" where
  "split_str sep s = (if sep = [] then map (\<lambda>c. [c]) s else split_from sep [] s)"

section \<open>The regular expressions of RequestExecutor\<close>

text \<open>
  Each regular expression literal of the source is modelled by the function that computes
  the capture groups of its leftmost match, or \<open>None\<close> when \<^verbatim>\<open>match\<close> yields null.
\<close>

text \<open>
  \<^verbatim>\<open>/boundary=(.+)$/\<close>: at the leftmost occurrence of \<^verbatim>\<open>boundary=\<close> whose remainder is a
  non-empty run of non-terminators up to the end of the input, group 1 is that remainder.
\<close>

fun boundary_match :: "string \<Rightarrow> string option" where
  "boundary_match [] = None"
| "boundary_match (c # cs) =
     (if prefix ''boundary='' (c # cs)
         \<and> drop 9 (c # cs) \<noteq> [] \<and> list_all dot (drop 9 (c # cs))
      then Some (drop 9 (c # cs))
      else boundary_match cs)"

text \<open>
  The lazy group \<^verbatim>\<open>(.+?)\<close> followed by a literal \<open>lit\<close> and the test \<open>ok\<close> on what
  follows the literal: \<open>lazy_until lit ok acc s\<close> extends the non-empty group \<open>acc\<close> by one
  character of \<open>s\<close> at a time and stops at the first position where \<open>lit\<close> and then \<open>ok\<close>
  match. It yields the group and the input after the literal.
\<close>

fun lazy_until :: "string \<Rightarrow> (string \<Rightarrow> bool) \<Rightarrow> string \<Rightarrow> string \<Rightarrow> (string \<times> string) option" where
  "lazy_until lit ok acc [] = None"
| "lazy_until lit ok acc (c # cs) =
     (if prefix lit (c # cs) \<and> ok (drop (length lit) (c # cs))
      then Some (acc, drop (length lit) (c # cs))
      else if dot c then lazy_until lit ok (acc @ [c]) cs
      else None)"

text \<open>The group \<^verbatim>\<open>(.+?)\<close> starting at the head of the input: at least one character.\<close>

fun lazy_group :: "string \<Rightarrow> (string \<Rightarrow> bool) \<Rightarrow> string \<Rightarrow> (string \<times> string) option" where
  "lazy_group lit ok [] = None"
| "lazy_group lit ok (c # cs) = (if dot c then lazy_until lit ok [c] cs else None)"

text \<open>
  \<^verbatim>\<open>/(.+?): (.+)/\<close>: group 1 is lazy, group 2 the longest run of non-terminators after
  the first \<^verbatim>\<open>": "\<close> that such a run follows. The match is tried at each start position
  from the left.
\<close>

definition starts_dot :: "string \<Rightarrow> bool" where
  "starts_dot s = (case s of [] \<Rightarrow> False | c # _ \<Rightarrow> dot c)"

fun header_match :: "string \<Rightarrow> (string \<times> string) option" where
  "header_match [] = None"
| "header_match (c # cs) =
     (case lazy_group '': '' starts_dot (c # cs) of
        Some (k, rest) \<Rightarrow> Some (k, takeWhile dot rest)
      | None \<Rightarrow> header_match cs)"

text \<open>
  \<^verbatim>\<open>/name="(.+?)"/\<close> and \<^verbatim>\<open>/filename="(.+?)"/\<close>: at the leftmost occurrence of the
  literal \<open>key\<close> (\<^verbatim>\<open>name="\<close> or \<^verbatim>\<open>filename="\<close>) that a lazy group and a closing quote
  follow, group 1.
\<close>

fun quoted_match :: "string \<Rightarrow> string \<Rightarrow> string option" where
  "quoted_match key [] = None"
| "quoted_match key (c # cs) =
     (if prefix key (c # cs)
      then (case lazy_group ''\"'' (\<lambda>_. True) (drop (length key) (c # cs)) of
              Some (g, _) \<Rightarrow> Some g
            | None \<Rightarrow> quoted_match key cs)
      else quoted_match key cs)"

section \<open>Values, requests and responses\<close>

text \<open>
  The values of JavaScript that a request body or a parsed response body can hold.
  Numbers are restricted to the integers; \<open>JNaN\<close> stands for the number NaN.
\<close>

datatype jsvalue =
    JUndefined
  | JNull
  | JBool bool
  | JNumber int
  | JNaN
  | JString string
  | JArray "jsvalue list"
  | JObject "(string \<times> jsvalue) list"

text \<open>The truthiness that \<^verbatim>\<open>||\<close>, \<^verbatim>\<open>!\<close> and \<^verbatim>\<open>if\<close> test.\<close>

fun truthy :: "jsvalue \<Rightarrow> bool" where
  "truthy JUndefined = False"
| "truthy JNull = False"
| "truthy (JBool b) = b"
| "truthy (JNumber n) = (n \<noteq> 0)"
| "truthy JNaN = False"
| "truthy (JString s) = (s \<noteq> [])"
| "truthy (JArray _) = True"
| "truthy (JObject _) = True"

definition js_or :: "jsvalue \<Rightarrow> jsvalue \<Rightarrow> jsvalue" where
  "js_or a b = (if truthy a then a else b)"

text \<open>
  A value of type \<^verbatim>\<open>string | undefined\<close> or \<^verbatim>\<open>string | null\<close> is a \<^typ>\<open>string option\<close>;
  it is truthy when it is a non-empty string.
\<close>

definition truthy_str :: "string option \<Rightarrow> bool" where
  "truthy_str a = (case a of None \<Rightarrow> False | Some s \<Rightarrow> s \<noteq> [])"

definition str_or :: "string option \<Rightarrow> string option \<Rightarrow> string option" where
  "str_or a b = (if truthy_str a then a else b)"

text \<open>
  \<^verbatim>\<open>HttpRequest\<close>: the fields RequestExecutor reads. The other fields of a request (its
  name, tests and variable updates) are the extension of the record, which a record
  update keeps as the spread \<^verbatim>\<open>...request\<close> does. The field \<^verbatim>\<open>method\<close> is named
  \<open>http_method\<close>. A \<^verbatim>\<open>Record<string, string>\<close> is a map.
\<close>

record http_request =
  http_method :: string
  url :: string
  headers :: "string \<rightharpoonup> string"
  body :: jsvalue

text \<open>\<^verbatim>\<open>HttpResponse\<close>, the result of \<^verbatim>\<open>execute\<close>.\<close>

record http_response =
  status :: int
  response_headers :: "string \<rightharpoonup> string"
  data :: jsvalue

text \<open>
  A response object of node-fetch, as its accessors show it: \<^verbatim>\<open>status\<close>, the entries of
  \<^verbatim>\<open>headers\<close>, and the text that \<^verbatim>\<open>text()\<close> resolves to.
\<close>

record fetch_response =
  fr_status :: int
  fr_headers :: "string \<rightharpoonup> string"
  fr_text :: string

text \<open>
  The value of the property \<^verbatim>\<open>response\<close> of an error: a response object, or any other value
  (undefined, null, an object without \<^verbatim>\<open>headers.entries\<close> or \<^verbatim>\<open>text\<close>), of which the
  status, the headers or the text cannot be read. Reading them throws; \<open>NotResponse\<close>
  carries the message of that error, a TypeError of the runtime.
\<close>

datatype response_property = ResponseObject fetch_response | NotResponse string

text \<open>
  What a \<^verbatim>\<open>catch\<close> clause can receive. An instance of \<^verbatim>\<open>Error\<close> has a message, a
  property \<^verbatim>\<open>type\<close> when \<open>err_type\<close> is not \<open>None\<close>, a property \<^verbatim>\<open>response\<close> when
  \<open>err_response\<close> is not \<open>None\<close>, and may be an instance of \<^verbatim>\<open>RequestError\<close>. Any other
  thrown value is kept as the string that \<^verbatim>\<open>String(error)\<close> makes of it.
\<close>

record js_error =
  is_RequestError :: bool
  message :: string
  err_type :: "string option"
  err_response :: "response_property option"

datatype thrown = Error js_error | NotError string

text \<open>\<^verbatim>\<open>new Error(msg)\<close>, also for the errors the runtime itself throws.\<close>

definition new_Error :: "string \<Rightarrow> thrown" where
  "new_Error msg =
     Error \<lparr>is_RequestError = False, message = msg, err_type = None, err_response = None\<rparr>"

text \<open>
  Modelled from the spec: the class \<^verbatim>\<open>RequestError\<close> of \<^verbatim>\<open>src/errors/RequestError\<close>, which
  is not among the sources. It is an \<^verbatim>\<open>Error\<close> that carries the message it is built with
  and has neither a \<^verbatim>\<open>type\<close> nor a \<^verbatim>\<open>response\<close> property.
\<close>

definition RequestError :: "string \<Rightarrow> thrown" where
  "RequestError msg =
     Error \<lparr>is_RequestError = True, message = msg, err_type = None, err_response = None\<rparr>"

section \<open>The form data under construction and the calls of fetch\<close>

text \<open>
  A \<^verbatim>\<open>FormData\<close> object is the sequence of its \<^verbatim>\<open>append\<close> calls: the field name, the
  value (a string, null, or the read stream of a file path) and the options.
\<close>

datatype form_value = FormText string | FormNull | FormFile string

record append_options =
  filename :: "string option"
  contentType :: "string option"

type_synonym form_data = "(string \<times> form_value \<times> append_options) list"

datatype request_data = BodyValue jsvalue | BodyForm form_data

record agent_options =
  rejectUnauthorized :: bool

text \<open>One call \<^verbatim>\<open>fetch(url, {method, headers, body, agent, timeout})\<close>.\<close>

record fetch_call =
  call_url :: string
  call_method :: string
  call_headers :: "string \<rightharpoonup> string"
  call_body :: request_data
  call_agent :: agent_options
  call_timeout :: nat

text \<open>
  Everything RequestExecutor calls and does not define: the variable manager, the JSON
  helper, and the libraries (URL, node-fetch, JSON, RegExp, path, fs, form-data).
  \<^item> \<open>replaceVariables\<close> is \<^verbatim>\<open>VariableManager.replaceVariables\<close>;
  \<^item> \<open>parseJson\<close> is \<^verbatim>\<open>JsonUtils.parseJson\<close>;
  \<^item> \<open>url_parses u\<close> holds when \<^verbatim>\<open>new URL(u)\<close> does not throw;
  \<^item> \<open>fetch\<close> resolves to a response (\<open>Inr\<close>) or rejects (\<open>Inl\<close>);
  \<^item> \<open>regexp_error src\<close> is what \<^verbatim>\<open>new RegExp(src)\<close> throws, if it does, and
    \<open>regexp_split src s\<close> is \<^verbatim>\<open>s.split(new RegExp(src))\<close>;
  \<^item> \<open>getHeaders\<close> is \<^verbatim>\<open>FormData.getHeaders\<close>, and \<open>append_null name options\<close> is what
    \<^verbatim>\<open>FormData.append\<close> throws, if it does, when the value is null.
  An environment is fixed during one \<^verbatim>\<open>execute\<close>. The answer of \<open>fetch\<close> is a function of
  the call; the probe and the dispatch differ in their timeout, so the answer to one does
  not bind the answer to the other.
\<close>

record env =
  replaceVariables :: "string \<Rightarrow> string"
  parseJson :: "string \<Rightarrow> jsvalue"
  url_parses :: "string \<Rightarrow> bool"
  fetch :: "fetch_call \<Rightarrow> thrown + fetch_response"
  JSON_stringify :: "jsvalue \<Rightarrow> jsvalue"
  regexp_error :: "string \<Rightarrow> thrown option"
  regexp_split :: "string \<Rightarrow> string \<Rightarrow> string list"
  path_resolve :: "string \<Rightarrow> string \<Rightarrow> string"
  existsSync :: "string \<Rightarrow> bool"
  getHeaders :: "form_data \<Rightarrow> (string \<rightharpoonup> string)"
  append_null :: "string \<Rightarrow> append_options \<Rightarrow> thrown option"

section \<open>RequestExecutor\<close>

text \<open>The private fields of the class; no constructor argument or setter changes them.\<close>

definition serverCheckTimeout :: nat where
  "serverCheckTimeout = 5000"

definition requestTimeout :: nat where
  "requestTimeout = 10000"

definition agent :: agent_options where
  "agent = \<lparr>rejectUnauthorized = False\<rparr>"

subsection \<open>applyVariables\<close>

definition applyVariables :: "env \<Rightarrow> 'a http_request_scheme \<Rightarrow> 'a http_request_scheme" where
  "applyVariables env request =
     request\<lparr>
       url := replaceVariables env (url request),
       headers := (\<lambda>key. map_option (replaceVariables env) (headers request key)),
       body := (case body request of
                  JString s \<Rightarrow> JString (replaceVariables env s)
                | b \<Rightarrow> b)\<rparr>"

subsection \<open>validateUrl\<close>

definition validateUrl :: "env \<Rightarrow> string \<Rightarrow> thrown + unit" where
  "validateUrl env u =
     (if url_parses env u then Inr () else Inl (RequestError (''Invalid URL: '' @ u)))"

subsection \<open>checkServerStatus\<close>

text \<open>
  The functions that call \<^verbatim>\<open>fetch\<close> return, with their result, the calls they made, in
  order.
\<close>

definition probe_call :: "string \<Rightarrow> fetch_call" where
  "probe_call u =
     \<lparr>call_url = u, call_method = ''HEAD'', call_headers = Map.empty,
      call_body = BodyValue JUndefined, call_agent = agent,
      call_timeout = serverCheckTimeout\<rparr>"

text \<open>
  The test \<^verbatim>\<open>error instanceof Error && "type" in error && error.type === "request-timeout"\<close>.
\<close>

definition is_timeout :: "thrown \<Rightarrow> bool" where
  "is_timeout error =
     (case error of
        Error e \<Rightarrow> err_type e = Some ''request-timeout''
      | NotError _ \<Rightarrow> False)"

text \<open>The probe rejects and the \<^verbatim>\<open>catch\<close> clause of \<^verbatim>\<open>checkServerStatus\<close> finds a timeout.\<close>

definition probe_times_out :: "env \<Rightarrow> string \<Rightarrow> bool" where
  "probe_times_out env u =
     (case fetch env (probe_call u) of
        Inl error \<Rightarrow> is_timeout error
      | Inr _ \<Rightarrow> False)"

definition checkServerStatus :: "env \<Rightarrow> string \<Rightarrow> (thrown + unit) \<times> fetch_call list" where
  "checkServerStatus env u =
     (if probe_times_out env u
      then (Inl (RequestError (''Server is not responding at '' @ u
              @ ''. Please check if the server is running.'')), [probe_call u])
      else (Inr (), [probe_call u]))"

subsection \<open>buildFormData\<close>

text \<open>
  The loop over the lines of a part: a blank line is skipped, a line that
  \<^verbatim>\<open>/(.+?): (.+)/\<close> matches sets a header under its lower-cased key, any other line is
  appended to the content.
\<close>

definition scan_line :: "(string \<rightharpoonup> string) \<times> string option \<Rightarrow> string \<Rightarrow> (string \<rightharpoonup> string) \<times> string option" where
  "scan_line st line =
     (if length (trim line) = 0 then st
      else case header_match line of
        Some (k, v) \<Rightarrow> ((fst st)(toLowerCase k \<mapsto> v), snd st)
      | None \<Rightarrow>
          (fst st, case snd st of None \<Rightarrow> Some line | Some c \<Rightarrow> Some (c @ CRLF @ line)))"

definition scan_part :: "string \<Rightarrow> (string \<rightharpoonup> string) \<times> string option" where
  "scan_part part = foldl scan_line (Map.empty, None) (split_str CRLF part)"

definition part_headers :: "string \<Rightarrow> (string \<rightharpoonup> string)" where
  "part_headers part = fst (scan_part part)"

definition part_content :: "string \<Rightarrow> string option" where
  "part_content part = snd (scan_part part)"

text \<open>The variables \<^verbatim>\<open>name\<close>, \<^verbatim>\<open>filename\<close> and \<^verbatim>\<open>contentType\<close> after the header section.\<close>

definition part_name :: "string \<Rightarrow> string option" where
  "part_name part =
     (case part_headers part ''content-disposition'' of
        None \<Rightarrow> None
      | Some cd \<Rightarrow> if cd = [] then None else quoted_match ''name=\"'' cd)"

definition part_filename :: "string \<Rightarrow> string option" where
  "part_filename part =
     (case part_headers part ''content-disposition'' of
        None \<Rightarrow> None
      | Some cd \<Rightarrow> if cd = [] then None else quoted_match ''filename=\"'' cd)"

definition part_contentType :: "string \<Rightarrow> string option" where
  "part_contentType part =
     (if truthy_str (part_headers part ''content-type'')
      then part_headers part ''content-type'' else None)"

definition part_options :: "string \<Rightarrow> append_options" where
  "part_options part =
     \<lparr>filename = (if truthy_str (part_filename part) then part_filename part else None),
      contentType = (if truthy_str (part_contentType part) then part_contentType part else None)\<rparr>"

text \<open>
  The destructuring \<^verbatim>\<open>const [, filePath] = content.split(" ")\<close>: the second element,
  undefined when there is none.
\<close>

definition filePath_of :: "string \<Rightarrow> string option" where
  "filePath_of c = (case split_str '' '' c of _ # p # _ \<Rightarrow> Some p | _ \<Rightarrow> None)"

text \<open>
  The second of the tokens that single spaces separate, for a string with a space: what
  follows the first space, up to the next space.
\<close>

definition second_token :: "string \<Rightarrow> string" where
  "second_token c =
     takeWhile (\<lambda>x. x \<noteq> CHR '' '') (tl (dropWhile (\<lambda>x. x \<noteq> CHR '' '') c))"

text \<open>The content of a file part: defined when \<^verbatim>\<open>filename && content\<close> holds.\<close>

definition file_content :: "string \<Rightarrow> string option" where
  "file_content part =
     (if truthy_str (part_filename part) \<and> truthy_str (part_content part)
      then part_content part else None)"

definition buildFormData :: "env \<Rightarrow> string \<Rightarrow> form_data \<Rightarrow> string \<Rightarrow> thrown + form_data" where
  "buildFormData env baseDir formData part =
     (case part_name part of
        None \<Rightarrow> Inl (new_Error ''Name not found in Content-Disposition header.'')
      | Some nm \<Rightarrow>
          if nm = [] then Inl (new_Error ''Name not found in Content-Disposition header.'')
          else case file_content part of
            Some c \<Rightarrow>
              (case filePath_of c of
                 None \<Rightarrow> Inl (new_Error ''Invalid file path format.'')
               | Some filePath \<Rightarrow>
                   if filePath = [] then Inl (new_Error ''Invalid file path format.'')
                   else if \<not> existsSync env (path_resolve env baseDir filePath)
                   then Inl (new_Error (filePath @ '' is not found.''))
                   else Inr (formData @
                     [(nm, FormFile (path_resolve env baseDir filePath), part_options part)]))
          | None \<Rightarrow>
              (case part_content part of
                 Some c \<Rightarrow> Inr (formData @ [(nm, FormText c, part_options part)])
               | None \<Rightarrow>
                   (case append_null env nm (part_options part) of
                      Some e \<Rightarrow> Inl e
                    | None \<Rightarrow> Inr (formData @ [(nm, FormNull, part_options part)]))))"

subsection \<open>parseFormData\<close>

text \<open>
  The characters that are not literal in the source of a regular expression. The body is
  split at \<^verbatim>\<open>new RegExp("--" + boundary)\<close>: when no character of the pattern is special it
  matches exactly the occurrences of the pattern as a string, and the split is that of
  \<open>split_str\<close>; any other pattern is left to the regular expression engine.
\<close>

definition regex_special :: "char \<Rightarrow> bool" where
  "regex_special c = (c \<in> set (''^$.*+?()[]{}|'' @ [CHR 0x5C]))"

definition new_RegExp :: "env \<Rightarrow> string \<Rightarrow> thrown option" where
  "new_RegExp env src = (if list_ex regex_special src then regexp_error env src else None)"

definition split_RegExp :: "env \<Rightarrow> string \<Rightarrow> string \<Rightarrow> string list" where
  "split_RegExp env src s =
     (if list_ex regex_special src then regexp_split env src s else split_str src s)"

text \<open>
  The loop \<^verbatim>\<open>parts.forEach\<close>: a part that is blank or is \<^verbatim>\<open>--\<close> is skipped, and a part
  that throws ends the loop.
\<close>

definition skipped :: "string \<Rightarrow> bool" where
  "skipped part = (length (trim part) = 0 \<or> part = ''--'')"

fun build_parts :: "env \<Rightarrow> string \<Rightarrow> form_data \<Rightarrow> string list \<Rightarrow> thrown + form_data" where
  "build_parts env baseDir formData [] = Inr formData"
| "build_parts env baseDir formData (part # parts) =
     (if skipped part then build_parts env baseDir formData parts
      else case buildFormData env baseDir formData part of
        Inl e \<Rightarrow> Inl e
      | Inr formData' \<Rightarrow> build_parts env baseDir formData' parts)"

text \<open>
  \<^verbatim>\<open>body.split(...)\<close> on a body that is not a string: reading \<^verbatim>\<open>split\<close> of undefined or
  null throws before the regular expression is built, any other value has no method
  \<^verbatim>\<open>split\<close> and the call throws after it (the messages are those of Node.js).
\<close>

definition split_body :: "env \<Rightarrow> string \<Rightarrow> jsvalue \<Rightarrow> thrown + string list" where
  "split_body env src b =
     (case b of
        JUndefined \<Rightarrow> Inl (new_Error ''Cannot read properties of undefined (reading 'split')'')
      | JNull \<Rightarrow> Inl (new_Error ''Cannot read properties of null (reading 'split')'')
      | JString s \<Rightarrow>
          (case new_RegExp env src of
             Some e \<Rightarrow> Inl e
           | None \<Rightarrow> Inr (split_RegExp env src s))
      | _ \<Rightarrow>
          (case new_RegExp env src of
             Some e \<Rightarrow> Inl e
           | None \<Rightarrow> Inl (new_Error ''body.split is not a function'')))"

text \<open>The header \<^verbatim>\<open>headers["Content-Type"] || headers["content-type"]\<close>, when it is truthy.\<close>

definition contentType_of :: "(string \<rightharpoonup> string) \<Rightarrow> string option" where
  "contentType_of hs =
     (if truthy_str (str_or (hs ''Content-Type'') (hs ''content-type''))
      then str_or (hs ''Content-Type'') (hs ''content-type'') else None)"

definition parseFormData :: "env \<Rightarrow> string \<Rightarrow> (string \<rightharpoonup> string) \<Rightarrow> jsvalue \<Rightarrow> thrown + form_data" where
  "parseFormData env baseDir hs b =
     (case contentType_of hs of
        None \<Rightarrow> Inl (new_Error ''Content-Type header not found.'')
      | Some ct \<Rightarrow>
          (case boundary_match ct of
             None \<Rightarrow> Inl (new_Error ''Boundary not found in Content-Type header.'')
           | Some g \<Rightarrow>
               (case split_body env (''--'' @ trim g) b of
                  Inl e \<Rightarrow> Inl e
                | Inr parts \<Rightarrow> build_parts env baseDir [] parts)))"

subsection \<open>sendRequest\<close>

text \<open>The body and the headers that \<^verbatim>\<open>sendRequest\<close> passes to \<^verbatim>\<open>fetch\<close>.\<close>

definition request_data_of :: "env \<Rightarrow> string \<Rightarrow> 'a http_request_scheme \<Rightarrow> thrown + (request_data \<times> (string \<rightharpoonup> string))" where
  "request_data_of env baseDir request =
     (case contentType_of (headers request) of
        None \<Rightarrow> Inr (BodyValue (body request), headers request)
      | Some ct \<Rightarrow>
          if includes_str ct ''application/json''
          then Inr (BodyValue (case body request of
                                 JString s \<Rightarrow> JString s
                               | b \<Rightarrow> JSON_stringify env b), headers request)
          else if includes_str ct ''multipart/form-data''
          then (case parseFormData env baseDir (headers request) (body request) of
                  Inl e \<Rightarrow> Inl e
                | Inr formData \<Rightarrow>
                    Inr (BodyForm formData,
                         ((headers request)(''Content-Type'' := None, ''content-type'' := None))
                           ++ getHeaders env formData))
          else Inr (BodyValue (body request), headers request))"

definition sendRequest :: "env \<Rightarrow> string \<Rightarrow> 'a http_request_scheme \<Rightarrow> (thrown + fetch_response) \<times> fetch_call list" where
  "sendRequest env baseDir request =
     (case request_data_of env baseDir request of
        Inl e \<Rightarrow> (Inl e, [])
      | Inr (d, requestHeaders) \<Rightarrow>
          (let call = \<lparr>call_url = url request, call_method = http_method request,
                       call_headers = requestHeaders, call_body = d,
                       call_agent = agent, call_timeout = requestTimeout\<rparr>
           in (fetch env call, [call])))"

subsection \<open>handleRequestError\<close>

text \<open>
  Only an instance of \<^verbatim>\<open>Error\<close> is asked for its properties: \<open>attached_response\<close> is the
  property \<^verbatim>\<open>response\<close> of such an error, when \<^verbatim>\<open>"response" in error\<close> holds, and
  \<open>error_message\<close> is \<^verbatim>\<open>error instanceof Error ? error.message : String(error)\<close>.
\<close>

definition attached_response :: "thrown \<Rightarrow> response_property option" where
  "attached_response error =
     (case error of
        Error e \<Rightarrow> err_response e
      | NotError _ \<Rightarrow> None)"

definition error_message :: "thrown \<Rightarrow> string" where
  "error_message error =
     (case error of
        Error e \<Rightarrow> message e
      | NotError s \<Rightarrow> s)"

text \<open>
  The branch \<^verbatim>\<open>"response" in error\<close> reads \<^verbatim>\<open>response.status\<close>,
  \<^verbatim>\<open>response.headers.entries()\<close> and \<^verbatim>\<open>response.text()\<close> without a test of the value: for
  a value that is not a response the error of that read leaves \<^verbatim>\<open>handleRequestError\<close> as it
  is, not wrapped in a RequestError.
\<close>

definition handleRequestError :: "thrown \<Rightarrow> 'a http_request_scheme \<Rightarrow> thrown + http_response" where
  "handleRequestError error request =
     (if is_timeout error
      then Inl (RequestError (''Request to '' @ url request
             @ '' timed out. Please check your network connection and server status.''))
      else case attached_response error of
        Some (ResponseObject response) \<Rightarrow>
          Inr \<lparr>status = fr_status response,
               response_headers = fr_headers response,
               data = JString (fr_text response)\<rparr>
      | Some (NotResponse msg) \<Rightarrow> Inl (new_Error msg)
      | None \<Rightarrow>
          Inl (RequestError (''Request to '' @ url request @ '' failed: ''
                 @ error_message error)))"



subsection \<open>execute\<close>

text \<open>
  The result of \<^verbatim>\<open>execute\<close> is the response it resolves to (\<open>Inr\<close>) or the value it
  rejects with (\<open>Inl\<close>), together with the calls of \<^verbatim>\<open>fetch\<close> made on the way.
\<close>

definition execute :: "env \<Rightarrow> string \<Rightarrow> 'a http_request_scheme \<Rightarrow> (thrown + http_response) \<times> fetch_call list" where
  "execute env baseDir request =
     (let processedRequest = applyVariables env request in
      case validateUrl env (url processedRequest) of
        Inl e \<Rightarrow> (handleRequestError e processedRequest, [])
      | Inr _ \<Rightarrow>
          (case checkServerStatus env (url processedRequest) of
             (Inl e, probed) \<Rightarrow> (handleRequestError e processedRequest, probed)
           | (Inr _, probed) \<Rightarrow>
               (case sendRequest env baseDir processedRequest of
                  (Inl e, sent) \<Rightarrow> (handleRequestError e processedRequest, probed @ sent)
                | (Inr response, sent) \<Rightarrow>
                    (Inr \<lparr>status = fr_status response,
                          response_headers = fr_headers response,
                          data = js_or (parseJson env (fr_text response))
                                       (JString (fr_text response))\<rparr>,
                     probed @ sent))))"

section \<open>A test environment\<close>

text \<open>
  A mock of the collaborators and libraries, on which the model is evaluated at concrete
  requests: two variables are bound, three texts are JSON-parseable, a URL parses when it
  starts with \<^verbatim>\<open>https://\<close>, the server answers every call with status 200 and the body
  \<^verbatim>\<open>{"ok":true}\<close>, and the only file is \<^verbatim>\<open>/base/a.txt\<close>.
\<close>

definition test_response :: fetch_response where
  "test_response =
     \<lparr>fr_status = 200, fr_headers = [''content-type'' \<mapsto> ''application/json''],
      fr_text = ''{\"ok\":true}''\<rparr>"

definition test_env :: env where
  "test_env =
     \<lparr>replaceVariables =
        (\<lambda>s. if s = ''${host}/ping'' then ''https://example.test/ping''
             else if s = ''${id}'' then ''7''
             else s),
      parseJson =
        (\<lambda>t. if t = ''{\"ok\":true}'' then JObject [(''ok'', JBool True)]
             else if t = ''false'' then JBool False
             else if t = ''0'' then JNumber 0
             else JNull),
      url_parses = (\<lambda>u. prefix ''https://'' u),
      fetch = (\<lambda>c. Inr test_response),
      JSON_stringify =
        (\<lambda>v. if v = JObject [(''a'', JNumber 1)] then JString ''{\"a\":1}'' else JUndefined),
      regexp_error = (\<lambda>src. None),
      regexp_split = (\<lambda>src s. [s]),
      path_resolve = (\<lambda>dir p. dir @ ''/'' @ p),
      existsSync = (\<lambda>p. p = ''/base/a.txt''),
      getHeaders = (\<lambda>fd. [''content-type'' \<mapsto> ''multipart/form-data; boundary=generated'']),
      append_null = (\<lambda>nm options. None)\<rparr>"

definition test_request :: http_request where
  "test_request =
     \<lparr>http_method = ''GET'', url = ''${host}/ping'', headers = Map.empty, body = JUndefined\<rparr>"

text \<open>A request with a placeholder in its URL, in a header and in its body.\<close>

definition test_post :: http_request where
  "test_post =
     \<lparr>http_method = ''POST'', url = ''${host}/ping'', headers = [''X-Id'' \<mapsto> ''${id}''],
      body = JString ''${id}''\<rparr>"

text \<open>An error as node-fetch rejects with, and one that carries a response.\<close>

definition timeout_error :: thrown where
  "timeout_error =
     Error \<lparr>is_RequestError = False, message = ''network timeout'',
            err_type = Some ''request-timeout'', err_response = None\<rparr>"

definition refused_error :: thrown where
  "refused_error =
     Error \<lparr>is_RequestError = False, message = ''connect ECONNREFUSED'',
            err_type = Some ''system'', err_response = None\<rparr>"

definition response_error :: thrown where
  "response_error =
     Error \<lparr>is_RequestError = False, message = ''Request failed with status code 500'',
            err_type = None,
            err_response = Some (ResponseObject (test_response\<lparr>fr_status := 500\<rparr>))\<rparr>"


text \<open>A server that answers the probe and fails the dispatch with a given error.\<close>

definition main_fails :: "thrown \<Rightarrow> fetch_call \<Rightarrow> thrown + fetch_response" where
  "main_fails error c = (if call_method c = ''HEAD'' then Inr test_response else Inl error)"

text \<open>A server that fails the probe with a given error and answers the dispatch.\<close>

definition probe_fails :: "thrown \<Rightarrow> fetch_call \<Rightarrow> thrown + fetch_response" where
  "probe_fails error c = (if call_method c = ''HEAD'' then Inl error else Inr test_response)"

text \<open>A text part and a file part, as a script writes them, and a body of both.\<close>

definition text_part :: string where
  "text_part =
     CRLF @ ''Content-Disposition: form-data; name=\"title\"'' @ CRLF @ CRLF @
     ''hello'' @ CRLF"

definition file_part_with :: "string \<Rightarrow> string" where
  "file_part_with c =
     CRLF @ ''Content-Disposition: form-data; name=\"f\"; filename=\"a.txt\"'' @ CRLF @
     ''Content-Type: text/plain'' @ CRLF @ CRLF @
     c @ CRLF"

definition file_part :: string where
  "file_part = file_part_with ''< a.txt''"

definition multipart_body_with :: "string \<Rightarrow> string" where
  "multipart_body_with c = ''--XX'' @ text_part @ ''--XX'' @ file_part_with c @ ''--XX--''"

definition multipart_body :: string where
  "multipart_body = multipart_body_with ''< a.txt''"

definition multipart_request :: http_request where
  "multipart_request =
     \<lparr>http_method = ''POST'', url = ''https://example.test/upload'',
      headers = [''Content-Type'' \<mapsto> ''multipart/form-data; boundary=XX''],
      body = JString multipart_body\<rparr>"

text \<open>A request with a structured body and a JSON content type under a given header key.\<close>

definition json_request :: "string \<Rightarrow> http_request" where
  "json_request key =
     \<lparr>http_method = ''POST'', url = ''https://example.test/items'',
      headers = [key \<mapsto> ''application/json''],
      body = JObject [(''a'', JNumber 1)]\<rparr>"

section \<open>Properties of the string functions\<close>

text \<open>A lazy group is never empty, so a matched name or file name is not.\<close>

lemma lazy_until_nonempty: "lazy_until lit ok acc s = Some (g, r) \<Longrightarrow> acc \<noteq> [] \<Longrightarrow> g \<noteq> []"
  by (induction s arbitrary: acc) (auto split: if_splits)

lemma lazy_group_nonempty: "lazy_group lit ok s = Some (g, r) \<Longrightarrow> g \<noteq> []"
  by (cases s) (auto split: if_splits dest: lazy_until_nonempty)

lemma quoted_match_nonempty: "quoted_match key s = Some g \<Longrightarrow> g \<noteq> []"
  by (induction s) (auto split: if_splits option.splits dest: lazy_group_nonempty)

lemma quoted_match_suffix:
  "quoted_match key t \<noteq> None \<Longrightarrow> suffix t s \<Longrightarrow> quoted_match key s \<noteq> None"
proof (induction s)
  case Nil
  then show ?case by simp
next
  case (Cons c cs)
  show ?case
  proof (cases "t = c # cs")
    case True
    with Cons.prems show ?thesis by simp
  next
    case False
    with Cons.prems have "suffix t cs" by (auto simp: suffix_Cons)
    with Cons have "quoted_match key cs \<noteq> None" by blast
    then show ?thesis by (auto split: option.splits)
  qed
qed

lemma quoted_match_at:
  "prefix key s \<Longrightarrow> lazy_group ''\"'' (\<lambda>_. True) (drop (length key) s) \<noteq> None \<Longrightarrow> quoted_match key s \<noteq> None"
  by (cases s) (auto split: option.splits)

lemma quoted_match_step:
  "quoted_match key (c # cs) \<noteq> None \<Longrightarrow>
   \<not> (prefix key (c # cs) \<and> lazy_group ''\"'' (\<lambda>_. True) (drop (length key) (c # cs)) \<noteq> None) \<Longrightarrow>
   quoted_match key cs \<noteq> None"
  by (auto split: if_splits option.splits)

lemma quoted_match_longer_key:
  "quoted_match (p @ key) s \<noteq> None \<Longrightarrow> quoted_match key s \<noteq> None"
proof (induction s)
  case Nil
  then show ?case by simp
next
  case (Cons c cs)
  let ?s = "c # cs"
  show ?case
  proof (cases "prefix (p @ key) ?s \<and> lazy_group ''\"'' (\<lambda>_. True) (drop (length (p @ key)) ?s) \<noteq> None")
    case True
    then obtain r where r: "?s = p @ key @ r" by (auto simp: prefix_def)
    have "prefix key (drop (length p) ?s)" unfolding r by simp
    moreover have "drop (length key) (drop (length p) ?s) = drop (length (p @ key)) ?s"
      by (simp add: add.commute)
    ultimately have "quoted_match key (drop (length p) ?s) \<noteq> None"
      using True quoted_match_at[of key "drop (length p) ?s"] by simp
    moreover have "suffix (drop (length p) ?s) ?s" by (rule suffix_drop)
    ultimately show ?thesis by (rule quoted_match_suffix)
  next
    case False
    with Cons.prems have "quoted_match (p @ key) cs \<noteq> None"
      by (rule quoted_match_step)
    then have "quoted_match key cs \<noteq> None" by (rule Cons.IH)
    moreover have "suffix cs ?s" by (simp add: suffix_Cons)
    ultimately show ?thesis by (rule quoted_match_suffix)
  qed
qed

lemma filename_match_name_match:
  "quoted_match ''filename=\"'' s \<noteq> None \<Longrightarrow> quoted_match ''name=\"'' s \<noteq> None"
  using quoted_match_longer_key[of "''file''" "''name=\"''" s] by simp

lemma split_from_char:
  "split_from [c] acc s =
     (if c \<in> set s
      then (acc @ takeWhile (\<lambda>x. x \<noteq> c) s) # split_from [c] [] (tl (dropWhile (\<lambda>x. x \<noteq> c) s))
      else [acc @ s])"
  by (induction s arbitrary: acc) auto

lemma takeWhile_neq_all: "c \<notin> set s \<Longrightarrow> takeWhile (\<lambda>x. x \<noteq> c) s = s"
  by (induction s) auto

lemma split_from_char_hd:
  "\<exists>ps. split_from [c] acc s = (acc @ takeWhile (\<lambda>x. x \<noteq> c) s) # ps"
  by (subst split_from_char) (simp add: takeWhile_neq_all)

lemma filePath_of_eq:
  "filePath_of c =
     (if CHR '' '' \<in> set c
      then Some (takeWhile (\<lambda>x. x \<noteq> CHR '' '') (tl (dropWhile (\<lambda>x. x \<noteq> CHR '' '') c)))
      else None)"
proof -
  obtain ps where "split_from '' '' [] (tl (dropWhile (\<lambda>x. x \<noteq> CHR '' '') c)) =
      takeWhile (\<lambda>x. x \<noteq> CHR '' '') (tl (dropWhile (\<lambda>x. x \<noteq> CHR '' '') c)) # ps"
    using split_from_char_hd[of "CHR '' ''" "[]"] by auto
  then show ?thesis
    unfolding filePath_of_def split_str_def
    by (subst split_from_char) auto
qed

lemma filePath_of_second_token:
  "filePath_of c = (if CHR '' '' \<in> set c then Some (second_token c) else None)"
  by (simp add: filePath_of_eq second_token_def)

lemma second_token_no_space: "CHR '' '' \<notin> set (second_token c)"
  unfolding second_token_def by (auto dest: set_takeWhileD)

lemma dropWhile_neq_append: "c \<notin> set t \<Longrightarrow> dropWhile (\<lambda>x. x \<noteq> c) (t @ c # r) = c # r"
  by (induction t) auto

lemma takeWhile_neq_append: "c \<notin> set p \<Longrightarrow> takeWhile (\<lambda>x. x \<noteq> c) (p @ c # r) = p"
  by (induction p) auto

lemma second_token_append:
  assumes "CHR '' '' \<notin> set t" and "CHR '' '' \<notin> set p"
  shows "second_token (t @ '' '' @ p) = p" and "second_token (t @ '' '' @ p @ '' '' @ r) = p"
  using assms
  by (simp_all add: second_token_def dropWhile_neq_append takeWhile_neq_all takeWhile_neq_append)

section \<open>Properties of RequestExecutor\<close>

subsection \<open>The parts of a multipart body\<close>

lemma file_part_has_name:
  assumes "file_content part = Some c"
  shows "\<exists>nm. part_name part = Some nm \<and> nm \<noteq> []"
proof -
  from assms have f: "truthy_str (part_filename part)"
    by (simp add: file_content_def split: if_splits)
  then obtain cd where cd: "part_headers part ''content-disposition'' = Some cd" "cd \<noteq> []"
      and m: "quoted_match ''filename=\"'' cd \<noteq> None"
    by (auto simp: part_filename_def truthy_str_def split: option.splits if_splits)
  from m have "quoted_match ''name=\"'' cd \<noteq> None"
    by (rule filename_match_name_match)
  then obtain nm where nm: "quoted_match ''name=\"'' cd = Some nm" by auto
  then have "nm \<noteq> []" by (rule quoted_match_nonempty)
  with nm cd show ?thesis by (simp add: part_name_def)
qed


lemma buildFormData_file:
  assumes "file_content part = Some c" and "part_name part = Some nm"
  shows "buildFormData env baseDir formData part =
     (if CHR '' '' \<notin> set c \<or> second_token c = []
      then Inl (new_Error ''Invalid file path format.'')
      else if \<not> existsSync env (path_resolve env baseDir (second_token c))
      then Inl (new_Error (second_token c @ '' is not found.''))
      else Inr (formData @
        [(nm, FormFile (path_resolve env baseDir (second_token c)), part_options part)]))"
proof -
  from file_part_has_name[OF assms(1)] assms(2) have "nm \<noteq> []" by simp
  with assms show ?thesis
    by (simp add: buildFormData_def filePath_of_second_token)
qed


subsection \<open>The steps of execute\<close>

lemma handle_RequestError:
  "handleRequestError (RequestError msg) request =
     Inl (RequestError (''Request to '' @ url request @ '' failed: '' @ msg))"
  by (simp add: handleRequestError_def RequestError_def is_timeout_def attached_response_def
      error_message_def)

lemma execute_eq:
  "execute env baseDir request =
     (let pr = applyVariables env request; u = url pr in
      if \<not> url_parses env u
      then (Inl (RequestError (''Request to '' @ u @ '' failed: Invalid URL: '' @ u)), [])
      else if probe_times_out env u
      then (Inl (RequestError (''Request to '' @ u @ '' failed: Server is not responding at '' @ u
              @ ''. Please check if the server is running.'')), [probe_call u])
      else case sendRequest env baseDir pr of
             (Inl e, sent) \<Rightarrow> (handleRequestError e pr, probe_call u # sent)
           | (Inr response, sent) \<Rightarrow>
               (Inr \<lparr>status = fr_status response, response_headers = fr_headers response,
                     data = js_or (parseJson env (fr_text response)) (JString (fr_text response))\<rparr>,
                probe_call u # sent))"
  by (simp add: execute_def validateUrl_def checkServerStatus_def handle_RequestError Let_def
      split: sum.splits prod.splits)

lemma url_applyVariables: "url (applyVariables env request) = replaceVariables env (url request)"
  by (simp add: applyVariables_def)

lemma sendRequest_calls:
  "snd (sendRequest env baseDir request) = [] \<or>
   (\<exists>d hs. snd (sendRequest env baseDir request) =
      [\<lparr>call_url = url request, call_method = http_method request, call_headers = hs,
        call_body = d, call_agent = agent, call_timeout = requestTimeout\<rparr>])"
  by (simp add: sendRequest_def Let_def split: sum.splits prod.splits)

lemma execute_calls:
  "snd (execute env baseDir request) = [] \<or>
   snd (execute env baseDir request) =
     probe_call (url (applyVariables env request))
       # snd (sendRequest env baseDir (applyVariables env request)) \<or>
   snd (execute env baseDir request) = [probe_call (url (applyVariables env request))]"
  by (simp add: execute_eq Let_def split: sum.splits prod.splits)

lemma sendRequest_plain:
  assumes "contentType_of (headers request) = None"
  shows "sendRequest env baseDir request =
     (fetch env \<lparr>call_url = url request, call_method = http_method request,
            call_headers = headers request, call_body = BodyValue (body request),
            call_agent = agent, call_timeout = requestTimeout\<rparr>,
      [\<lparr>call_url = url request, call_method = http_method request,
            call_headers = headers request, call_body = BodyValue (body request),
            call_agent = agent, call_timeout = requestTimeout\<rparr>])"
  using assms by (simp add: sendRequest_def request_data_of_def Let_def)

lemma execute_after_probe:
  assumes "url_parses env (replaceVariables env (url request))"
    and "\<not> probe_times_out env (replaceVariables env (url request))"
  shows "snd (execute env baseDir request) =
           probe_call (replaceVariables env (url request))
             # snd (sendRequest env baseDir (applyVariables env request))"
    and "fst (execute env baseDir request) =
           (case fst (sendRequest env baseDir (applyVariables env request)) of
              Inl e \<Rightarrow> handleRequestError e (applyVariables env request)
            | Inr response \<Rightarrow>
                Inr \<lparr>status = fr_status response, response_headers = fr_headers response,
                     data = js_or (parseJson env (fr_text response))
                                  (JString (fr_text response))\<rparr>)"
  using assms
  by (simp_all add: execute_eq url_applyVariables Let_def split: sum.splits prod.splits)

text \<open>The test request in the test environment, whatever \<^verbatim>\<open>fetch\<close> answers.\<close>

lemma test_sendRequest:
  "sendRequest (test_env\<lparr>fetch := f\<rparr>) ''/base'' (applyVariables (test_env\<lparr>fetch := f\<rparr>) test_request) =
     (f \<lparr>call_url = ''https://example.test/ping'', call_method = ''GET'',
          call_headers = Map.empty, call_body = BodyValue JUndefined,
          call_agent = agent, call_timeout = requestTimeout\<rparr>,
      [\<lparr>call_url = ''https://example.test/ping'', call_method = ''GET'',
          call_headers = Map.empty, call_body = BodyValue JUndefined,
          call_agent = agent, call_timeout = requestTimeout\<rparr>])"
  by (simp add: sendRequest_def request_data_of_def contentType_of_def str_or_def truthy_str_def
      applyVariables_def test_env_def test_request_def Let_def)

lemma test_url: "replaceVariables test_env (url test_request) = ''https://example.test/ping''"
  by (simp add: test_env_def test_request_def)

lemma test_probe: "\<not> probe_times_out (test_env\<lparr>fetch := main_fails error\<rparr>) u"
  by (simp add: probe_times_out_def main_fails_def probe_call_def)

lemma test_parses: "url_parses (test_env\<lparr>fetch := f\<rparr>) ''https://example.test/ping''"
  by (simp add: test_env_def)

lemma test_u: "''https://example.test/ping'' = replaceVariables (test_env\<lparr>fetch := f\<rparr>) (url test_request)"
  by (simp add: test_env_def test_request_def)

lemma test_fails:
  "fst (sendRequest (test_env\<lparr>fetch := main_fails error\<rparr>) ''/base''
     (applyVariables (test_env\<lparr>fetch := main_fails error\<rparr>) test_request)) = Inl error"
  by (simp add: test_sendRequest main_fails_def)

subsection \<open>URL validation\<close>

text \<open>
  C6. When the substituted URL does not parse, \<^verbatim>\<open>execute\<close> rejects with a RequestError
  (the error of \<^verbatim>\<open>validateUrl\<close>, wrapped by \<^verbatim>\<open>handleRequestError\<close>) and has made no call
  of \<^verbatim>\<open>fetch\<close>: neither the probe nor the dispatch.
\<close>

theorem execute_invalid_url:
  assumes "\<not> url_parses env (replaceVariables env (url request))"
  shows "execute env baseDir request =
           (Inl (RequestError (''Request to '' @ replaceVariables env (url request)
                   @ '' failed: Invalid URL: '' @ replaceVariables env (url request))), [])"
  using assms
  by (simp add: execute_def applyVariables_def validateUrl_def handleRequestError_def
      RequestError_def is_timeout_def attached_response_def error_message_def)

theorem execute_invalid_url_witness:
  "\<not> url_parses test_env (replaceVariables test_env (url (test_request\<lparr>url := ''ping''\<rparr>)))
   \<and> execute test_env ''/base'' (test_request\<lparr>url := ''ping''\<rparr>) =
       (Inl (RequestError ''Request to ping failed: Invalid URL: ping''), [])"
  using execute_invalid_url[of test_env "test_request\<lparr>url := ''ping''\<rparr>" "''/base''"]
  by (simp add: test_env_def test_request_def)

subsection \<open>The liveness probe\<close>

text \<open>
  C5. Once the URL has parsed, the first call of \<^verbatim>\<open>fetch\<close> is the probe: method HEAD, the
  target URL, a timeout of 5000 ms. \<^verbatim>\<open>checkServerStatus\<close> throws exactly when the probe
  rejects with a timeout-typed error; then \<^verbatim>\<open>execute\<close> rejects with a RequestError that
  reports the server as not responding, and nothing is dispatched. After any other outcome
  of the probe (a response, or any other rejection) the dispatch of \<^verbatim>\<open>sendRequest\<close>
  follows and decides the result.
\<close>

theorem probe_before_dispatch:
  assumes "u = replaceVariables env (url request)" and "url_parses env u"
  shows "call_method (probe_call u) = ''HEAD'' \<and> call_url (probe_call u) = u
    \<and> call_timeout (probe_call u) = 5000
    \<and> (\<exists>sent. snd (execute env baseDir request) = probe_call u # sent)
    \<and> ((\<exists>e. fst (checkServerStatus env u) = Inl e) = probe_times_out env u)
    \<and> (probe_times_out env u \<longrightarrow>
          execute env baseDir request =
            (Inl (RequestError (''Request to '' @ u @ '' failed: Server is not responding at ''
               @ u @ ''. Please check if the server is running.'')), [probe_call u]))
    \<and> (\<not> probe_times_out env u \<longrightarrow>
          snd (execute env baseDir request) =
            probe_call u # snd (sendRequest env baseDir (applyVariables env request))
          \<and> fst (execute env baseDir request) =
            (case fst (sendRequest env baseDir (applyVariables env request)) of
               Inl e \<Rightarrow> handleRequestError e (applyVariables env request)
             | Inr response \<Rightarrow>
                 Inr \<lparr>status = fr_status response, response_headers = fr_headers response,
                      data = js_or (parseJson env (fr_text response))
                                   (JString (fr_text response))\<rparr>))"
proof -
  have "call_method (probe_call u) = ''HEAD'' \<and> call_url (probe_call u) = u
      \<and> call_timeout (probe_call u) = 5000"
    by (simp add: probe_call_def serverCheckTimeout_def)
  moreover have "(\<exists>e. fst (checkServerStatus env u) = Inl e) = probe_times_out env u"
    by (simp add: checkServerStatus_def)
  moreover have "\<exists>sent. snd (execute env baseDir request) = probe_call u # sent"
    using assms by (simp add: execute_eq url_applyVariables Let_def split: sum.splits prod.splits)
  moreover have "probe_times_out env u \<longrightarrow>
          execute env baseDir request =
            (Inl (RequestError (''Request to '' @ u @ '' failed: Server is not responding at ''
               @ u @ ''. Please check if the server is running.'')), [probe_call u])"
    using assms by (simp add: execute_eq url_applyVariables Let_def)
  ultimately show ?thesis
    using assms execute_after_probe[of env request baseDir] by simp
qed

theorem probe_before_dispatch_witness:
  "probe_times_out (test_env\<lparr>fetch := probe_fails timeout_error\<rparr>) ''https://example.test/ping''
   \<and> execute (test_env\<lparr>fetch := probe_fails timeout_error\<rparr>) ''/base'' test_request =
       (Inl (RequestError (''Request to https://example.test/ping failed: Server is not responding at https://example.test/ping. Please check if the server is running.'')),
        [probe_call ''https://example.test/ping''])
   \<and> \<not> probe_times_out (test_env\<lparr>fetch := probe_fails refused_error\<rparr>) ''https://example.test/ping''
   \<and> fst (execute (test_env\<lparr>fetch := probe_fails refused_error\<rparr>) ''/base'' test_request) =
       Inr \<lparr>status = 200, response_headers = [''content-type'' \<mapsto> ''application/json''],
            data = JObject [(''ok'', JBool True)]\<rparr>
   \<and> map call_method (snd (execute (test_env\<lparr>fetch := probe_fails refused_error\<rparr>) ''/base''
         test_request)) = [''HEAD'', ''GET'']"
proof -
  have t: "probe_times_out (test_env\<lparr>fetch := probe_fails timeout_error\<rparr>) u" for u
    by (simp add: probe_times_out_def probe_fails_def probe_call_def timeout_error_def
        is_timeout_def)
  have r: "\<not> probe_times_out (test_env\<lparr>fetch := probe_fails refused_error\<rparr>) u" for u
    by (simp add: probe_times_out_def probe_fails_def probe_call_def refused_error_def
        is_timeout_def)
  have s: "sendRequest (test_env\<lparr>fetch := probe_fails refused_error\<rparr>) ''/base''
       (applyVariables (test_env\<lparr>fetch := probe_fails refused_error\<rparr>) test_request) =
     (Inr test_response,
      [\<lparr>call_url = ''https://example.test/ping'', call_method = ''GET'',
         call_headers = Map.empty, call_body = BodyValue JUndefined,
         call_agent = agent, call_timeout = requestTimeout\<rparr>])"
    by (simp add: test_sendRequest probe_fails_def)
  have j: "js_or (parseJson test_env (fr_text test_response)) (JString (fr_text test_response)) =
      JObject [(''ok'', JBool True)]"
    by (simp add: test_env_def test_response_def js_or_def)
  from probe_before_dispatch[OF test_u test_parses, of "probe_fails timeout_error" "''/base''"]
    probe_before_dispatch[OF test_u test_parses, of "probe_fails refused_error" "''/base''"]
    t r s j
  show ?thesis by (simp add: probe_call_def) (simp add: test_response_def)
qed

subsection \<open>Timeouts and the HTTPS agent\<close>

lemma request_data_sent:
  assumes "request_data_of env baseDir request = Inr (d, hs)"
  shows "sendRequest env baseDir request =
     (fetch env
        \<lparr>call_url = url request, call_method = http_method request, call_headers = hs,
         call_body = d, call_agent = \<lparr>rejectUnauthorized = False\<rparr>, call_timeout = 10000\<rparr>,
      [\<lparr>call_url = url request, call_method = http_method request, call_headers = hs,
         call_body = d, call_agent = \<lparr>rejectUnauthorized = False\<rparr>, call_timeout = 10000\<rparr>])"
  using assms by (simp add: sendRequest_def Let_def agent_def requestTimeout_def)

lemma request_data_fails:
  assumes "request_data_of env baseDir request = Inl e"
  shows "sendRequest env baseDir request = (Inl e, [])"
  using assms by (simp add: sendRequest_def)

lemma probe_call_eq:
  "probe_call u =
     \<lparr>call_url = u, call_method = ''HEAD'', call_headers = Map.empty,
      call_body = BodyValue JUndefined, call_agent = \<lparr>rejectUnauthorized = False\<rparr>,
      call_timeout = 5000\<rparr>"
  by (simp add: probe_call_def agent_def serverCheckTimeout_def)

text \<open>
  C7. Whatever the environment, the base directory and the request, the calls of
  \<^verbatim>\<open>fetch\<close> that \<^verbatim>\<open>execute\<close> makes are none, the probe, or the probe and the dispatch, and
  nothing else: the probe with a timeout of 5000 ms, the dispatch with a timeout of 10000
  ms, both through an agent with \<^verbatim>\<open>rejectUnauthorized: false\<close>. Once the URL has parsed the
  probe is issued, and its answer to exactly this call decides whether it timed out; when
  the probe has not timed out and the body is built, the dispatch is issued, its answer to
  exactly this call decides the result of \<^verbatim>\<open>execute\<close>, and the calls are these two; and
  likewise \<^verbatim>\<open>sendRequest\<close> on any request whose body is built makes this one call.
\<close>

theorem fixed_timeouts_and_agent:
  assumes "u = replaceVariables env (url request)"
  shows "(snd (execute env baseDir request) = []
       \<or> snd (execute env baseDir request) =
           [\<lparr>call_url = u, call_method = ''HEAD'', call_headers = Map.empty,
             call_body = BodyValue JUndefined, call_agent = \<lparr>rejectUnauthorized = False\<rparr>,
             call_timeout = 5000\<rparr>]
       \<or> (\<exists>d hs. snd (execute env baseDir request) =
           [\<lparr>call_url = u, call_method = ''HEAD'', call_headers = Map.empty,
             call_body = BodyValue JUndefined, call_agent = \<lparr>rejectUnauthorized = False\<rparr>,
             call_timeout = 5000\<rparr>,
            \<lparr>call_url = u, call_method = http_method request, call_headers = hs,
             call_body = d, call_agent = \<lparr>rejectUnauthorized = False\<rparr>,
             call_timeout = 10000\<rparr>]))
    \<and> (url_parses env u \<longrightarrow>
         (\<exists>sent. snd (execute env baseDir request) =
            \<lparr>call_url = u, call_method = ''HEAD'', call_headers = Map.empty,
             call_body = BodyValue JUndefined, call_agent = \<lparr>rejectUnauthorized = False\<rparr>,
             call_timeout = 5000\<rparr> # sent)
         \<and> probe_times_out env u =
            (case fetch env
                \<lparr>call_url = u, call_method = ''HEAD'', call_headers = Map.empty,
                 call_body = BodyValue JUndefined,
                 call_agent = \<lparr>rejectUnauthorized = False\<rparr>, call_timeout = 5000\<rparr> of
               Inl error \<Rightarrow> is_timeout error
             | Inr _ \<Rightarrow> False))
    \<and> (\<forall>d hs. url_parses env u \<and> \<not> probe_times_out env u
           \<and> request_data_of env baseDir (applyVariables env request) = Inr (d, hs) \<longrightarrow>
         snd (execute env baseDir request) =
           [\<lparr>call_url = u, call_method = ''HEAD'', call_headers = Map.empty,
             call_body = BodyValue JUndefined, call_agent = \<lparr>rejectUnauthorized = False\<rparr>,
             call_timeout = 5000\<rparr>,
            \<lparr>call_url = u, call_method = http_method request, call_headers = hs,
             call_body = d, call_agent = \<lparr>rejectUnauthorized = False\<rparr>,
             call_timeout = 10000\<rparr>]
         \<and> fst (execute env baseDir request) =
           (case fetch env
               \<lparr>call_url = u, call_method = http_method request, call_headers = hs,
                call_body = d, call_agent = \<lparr>rejectUnauthorized = False\<rparr>,
                call_timeout = 10000\<rparr> of
              Inl e \<Rightarrow> handleRequestError e (applyVariables env request)
            | Inr response \<Rightarrow>
                Inr \<lparr>status = fr_status response, response_headers = fr_headers response,
                     data = js_or (parseJson env (fr_text response))
                                  (JString (fr_text response))\<rparr>))
    \<and> (\<forall>d hs. request_data_of env baseDir request = Inr (d, hs) \<longrightarrow>
         sendRequest env baseDir request =
           (fetch env
              \<lparr>call_url = url request, call_method = http_method request, call_headers = hs,
               call_body = d, call_agent = \<lparr>rejectUnauthorized = False\<rparr>,
               call_timeout = 10000\<rparr>,
            [\<lparr>call_url = url request, call_method = http_method request, call_headers = hs,
               call_body = d, call_agent = \<lparr>rejectUnauthorized = False\<rparr>,
               call_timeout = 10000\<rparr>]))"
proof -
  let ?pr = "applyVariables env request"
  have m: "http_method ?pr = http_method request" "url ?pr = u"
    by (simp_all add: applyVariables_def assms)
  have sent: "sendRequest env baseDir ?pr =
      (fetch env
         \<lparr>call_url = u, call_method = http_method request, call_headers = hs,
          call_body = d, call_agent = \<lparr>rejectUnauthorized = False\<rparr>, call_timeout = 10000\<rparr>,
       [\<lparr>call_url = u, call_method = http_method request, call_headers = hs,
          call_body = d, call_agent = \<lparr>rejectUnauthorized = False\<rparr>, call_timeout = 10000\<rparr>])"
    if "request_data_of env baseDir ?pr = Inr (d, hs)" for d hs
    using request_data_sent[OF that] by (simp add: m)
  have shape: "snd (execute env baseDir request) = []
       \<or> snd (execute env baseDir request) = [probe_call u]
       \<or> (\<exists>d hs. snd (execute env baseDir request) =
           [probe_call u,
            \<lparr>call_url = u, call_method = http_method request, call_headers = hs,
             call_body = d, call_agent = \<lparr>rejectUnauthorized = False\<rparr>,
             call_timeout = 10000\<rparr>])"
  proof (cases "request_data_of env baseDir ?pr")
    case (Inl e)
    from request_data_fails[OF this] execute_calls[of env baseDir request] show ?thesis
      by (auto simp: m)
  next
    case (Inr p)
    obtain d hs where "p = (d, hs)" by (cases p)
    with Inr sent[of d hs] execute_calls[of env baseDir request] show ?thesis
      by (auto simp: m)
  qed
  have probed: "\<exists>sent. snd (execute env baseDir request) = probe_call u # sent"
    if "url_parses env u"
    using that by (simp add: execute_eq m Let_def split: sum.splits prod.splits)
  have dispatched: "snd (execute env baseDir request) =
        [probe_call u,
         \<lparr>call_url = u, call_method = http_method request, call_headers = hs,
          call_body = d, call_agent = \<lparr>rejectUnauthorized = False\<rparr>, call_timeout = 10000\<rparr>]
      \<and> fst (execute env baseDir request) =
        (case fetch env
            \<lparr>call_url = u, call_method = http_method request, call_headers = hs,
             call_body = d, call_agent = \<lparr>rejectUnauthorized = False\<rparr>,
             call_timeout = 10000\<rparr> of
           Inl e \<Rightarrow> handleRequestError e ?pr
         | Inr response \<Rightarrow>
             Inr \<lparr>status = fr_status response, response_headers = fr_headers response,
                  data = js_or (parseJson env (fr_text response))
                               (JString (fr_text response))\<rparr>)"
    if "url_parses env u" and "\<not> probe_times_out env u"
      and "request_data_of env baseDir ?pr = Inr (d, hs)" for d hs
    using that(1,2) execute_after_probe[of env request baseDir] sent[OF that(3)]
    by (simp add: assms)
  have timed: "probe_times_out env u =
      (case fetch env (probe_call u) of Inl error \<Rightarrow> is_timeout error | Inr _ \<Rightarrow> False)"
    by (simp add: probe_times_out_def)
  from shape probed dispatched timed request_data_sent[of env baseDir request]
  show ?thesis unfolding probe_call_eq by blast
qed

theorem fixed_timeouts_and_agent_witness:
  "url_parses test_env ''https://example.test/ping''
   \<and> \<not> probe_times_out test_env ''https://example.test/ping''
   \<and> execute test_env ''/base'' test_request =
       (Inr \<lparr>status = 200, response_headers = [''content-type'' \<mapsto> ''application/json''],
             data = JObject [(''ok'', JBool True)]\<rparr>,
        [\<lparr>call_url = ''https://example.test/ping'', call_method = ''HEAD'',
          call_headers = Map.empty, call_body = BodyValue JUndefined,
          call_agent = \<lparr>rejectUnauthorized = False\<rparr>, call_timeout = 5000\<rparr>,
         \<lparr>call_url = ''https://example.test/ping'', call_method = ''GET'',
          call_headers = Map.empty, call_body = BodyValue JUndefined,
          call_agent = \<lparr>rejectUnauthorized = False\<rparr>, call_timeout = 10000\<rparr>])"
proof -
  have p: "url_parses test_env ''https://example.test/ping''"
    by (simp add: test_env_def)
  have t: "\<not> probe_times_out test_env ''https://example.test/ping''"
    by (simp add: probe_times_out_def test_env_def)
  have d: "request_data_of test_env ''/base'' (applyVariables test_env test_request) =
      Inr (BodyValue JUndefined, Map.empty)"
    by (simp add: request_data_of_def contentType_of_def str_or_def truthy_str_def
        applyVariables_def test_request_def)
  have f: "fetch test_env c = Inr test_response" for c
    by (simp add: test_env_def)
  have j: "js_or (parseJson test_env (fr_text test_response)) (JString (fr_text test_response)) =
      JObject [(''ok'', JBool True)]"
    by (simp add: test_env_def test_response_def js_or_def)
  have m: "http_method test_request = ''GET''"
    by (simp add: test_request_def)
  from fixed_timeouts_and_agent[OF test_url[symmetric], of "''/base''",
      THEN conjunct2, THEN conjunct2, THEN conjunct1, rule_format,
      of "BodyValue JUndefined" Map.empty] p t d
  have "snd (execute test_env ''/base'' test_request) =
        [\<lparr>call_url = ''https://example.test/ping'', call_method = ''HEAD'',
          call_headers = Map.empty, call_body = BodyValue JUndefined,
          call_agent = \<lparr>rejectUnauthorized = False\<rparr>, call_timeout = 5000\<rparr>,
         \<lparr>call_url = ''https://example.test/ping'', call_method = ''GET'',
          call_headers = Map.empty, call_body = BodyValue JUndefined,
          call_agent = \<lparr>rejectUnauthorized = False\<rparr>, call_timeout = 10000\<rparr>]
     \<and> fst (execute test_env ''/base'' test_request) =
        Inr \<lparr>status = 200, response_headers = [''content-type'' \<mapsto> ''application/json''],
             data = JObject [(''ok'', JBool True)]\<rparr>"
    by (simp add: f j m) (simp add: test_response_def)
  with p t show ?thesis by (simp add: prod_eq_iff)
qed

subsection \<open>Failures of the dispatch\<close>




text \<open>
  C9. When the error thrown by \<^verbatim>\<open>sendRequest\<close> has an attached response, any response that
  \<^verbatim>\<open>execute\<close> resolves to has the body text of the attached response as its data, as a
  string, whatever \<^verbatim>\<open>parseJson\<close> makes of that text; and \<^verbatim>\<open>execute\<close> does resolve unless
  the error is timeout-typed.
\<close>

theorem error_response_data_is_text:
  assumes "u = replaceVariables env (url request)"
    and "url_parses env u" and "\<not> probe_times_out env u"
    and "fst (sendRequest env baseDir (applyVariables env request)) = Inl error"
    and "attached_response error = Some (ResponseObject response)"
  shows "(\<not> is_timeout error \<longrightarrow>
            fst (execute env baseDir request) =
              Inr \<lparr>status = fr_status response, response_headers = fr_headers response,
                   data = JString (fr_text response)\<rparr>)
    \<and> (\<forall>r. fst (execute env baseDir request) = Inr r \<longrightarrow> data r = JString (fr_text response))"
  using assms(2-) execute_after_probe(2)[of env request baseDir]
  unfolding assms(1)
  by (auto simp add: handleRequestError_def url_applyVariables split: option.splits)

theorem error_response_data_is_text_witness:
  "attached_response response_error = Some (ResponseObject (test_response\<lparr>fr_status := 500\<rparr>))
   \<and> truthy (parseJson (test_env\<lparr>fetch := main_fails response_error\<rparr>) (fr_text (test_response\<lparr>fr_status := 500\<rparr>)))
   \<and> fst (execute (test_env\<lparr>fetch := main_fails response_error\<rparr>) ''/base'' test_request) =
     Inr \<lparr>status = 500, response_headers = [''content-type'' \<mapsto> ''application/json''],
          data = JString ''{\"ok\":true}''\<rparr>"
proof -
  have a: "attached_response response_error = Some (ResponseObject (test_response\<lparr>fr_status := 500\<rparr>))"
    by (simp add: attached_response_def response_error_def)
  have t: "\<not> is_timeout response_error"
    by (simp add: is_timeout_def response_error_def)
  have p: "truthy (parseJson (test_env\<lparr>fetch := main_fails response_error\<rparr>) (fr_text (test_response\<lparr>fr_status := 500\<rparr>)))"
    by (simp add: test_env_def test_response_def)
  from error_response_data_is_text[OF test_u test_parses test_probe test_fails a] t a p
  show ?thesis by (simp add: test_response_def)
qed

subsection \<open>The data of a response\<close>

text \<open>
  When the dispatch succeeds, the data of the response is \<^verbatim>\<open>parseJson(text) || text\<close>: the
  parsed value when it is truthy, the raw text otherwise. So the data is never the boolean
  false, the number 0 or null, whatever \<^verbatim>\<open>parseJson\<close> returns.
\<close>

lemma response_data_parsed_or_text:
  assumes "u = replaceVariables env (url request)"
    and "url_parses env u" and "\<not> probe_times_out env u"
    and "fst (sendRequest env baseDir (applyVariables env request)) = Inr response"
  shows "fst (execute env baseDir request) =
           Inr \<lparr>status = fr_status response, response_headers = fr_headers response,
                data = (if truthy (parseJson env (fr_text response))
                        then parseJson env (fr_text response)
                        else JString (fr_text response))\<rparr>
    \<and> (\<forall>r. fst (execute env baseDir request) = Inr r \<longrightarrow>
           data r \<noteq> JBool False \<and> data r \<noteq> JNumber 0 \<and> data r \<noteq> JNull)"
proof -
  have "fst (execute env baseDir request) =
      Inr \<lparr>status = fr_status response, response_headers = fr_headers response,
           data = js_or (parseJson env (fr_text response)) (JString (fr_text response))\<rparr>"
    using assms(2-) execute_after_probe(2)[of env request baseDir] unfolding assms(1) by simp
  moreover have "js_or p (JString t) \<noteq> JBool False \<and> js_or p (JString t) \<noteq> JNumber 0
      \<and> js_or p (JString t) \<noteq> JNull" for p t
    by (cases p) (auto simp: js_or_def)
  ultimately show ?thesis by (simp add: js_or_def)
qed

text \<open>
  C1. A body text that parses to a falsy value is kept as raw text. In the test
  environment the texts \<^verbatim>\<open>false\<close> and \<^verbatim>\<open>0\<close> parse to the boolean false and to the number
  0; for a server that answers with these bodies the data of the response is the string
  \<^verbatim>\<open>false\<close> and the string \<^verbatim>\<open>0\<close>, not the parsed value.
\<close>

theorem falsy_json_kept_as_text:
  "parseJson test_env ''false'' = JBool False
   \<and> fst (execute (test_env\<lparr>fetch := \<lambda>c. Inr (test_response\<lparr>fr_text := ''false''\<rparr>)\<rparr>) ''/base''
          test_request) =
       Inr \<lparr>status = 200, response_headers = [''content-type'' \<mapsto> ''application/json''],
            data = JString ''false''\<rparr>
   \<and> parseJson test_env ''0'' = JNumber 0
   \<and> fst (execute (test_env\<lparr>fetch := \<lambda>c. Inr (test_response\<lparr>fr_text := ''0''\<rparr>)\<rparr>) ''/base''
          test_request) =
       Inr \<lparr>status = 200, response_headers = [''content-type'' \<mapsto> ''application/json''],
            data = JString ''0''\<rparr>"
proof -
  have p: "\<not> probe_times_out (test_env\<lparr>fetch := \<lambda>c. Inr r\<rparr>) u" for r u
    by (simp add: probe_times_out_def)
  have s: "fst (sendRequest (test_env\<lparr>fetch := \<lambda>c. Inr r\<rparr>) ''/base''
      (applyVariables (test_env\<lparr>fetch := \<lambda>c. Inr r\<rparr>) test_request)) = Inr r" for r
    by (simp add: test_sendRequest)
  have j: "parseJson test_env ''false'' = JBool False" "parseJson test_env ''0'' = JNumber 0"
    by (simp_all add: test_env_def)
  from response_data_parsed_or_text[OF test_u test_parses p s, of "test_response\<lparr>fr_text := ''false''\<rparr>"]
    response_data_parsed_or_text[OF test_u test_parses p s, of "test_response\<lparr>fr_text := ''0''\<rparr>"]
    j
  show ?thesis by (simp add: test_response_def)
qed

subsection \<open>Variable substitution\<close>

text \<open>
  C8, as amended. \<^verbatim>\<open>applyVariables\<close> substitutes the variables in the URL, in every header
  value and in a body that is a string; a body that is not a string is passed through
  unchanged; the method and the other fields of the request are kept. \<^verbatim>\<open>execute\<close>
  dispatches from this copy: after a probe that does not time out its calls are the probe
  and those of \<^verbatim>\<open>sendRequest\<close> on the copy, and for a copy without a content type that
  call carries the substituted URL, headers and body.
\<close>

theorem applyVariables_fields:
  "url (applyVariables env request) = replaceVariables env (url request)
   \<and> (\<forall>key. headers (applyVariables env request) key =
              map_option (replaceVariables env) (headers request key))
   \<and> (\<forall>s. body request = JString s \<longrightarrow>
            body (applyVariables env request) = JString (replaceVariables env s))
   \<and> ((\<forall>s. body request \<noteq> JString s) \<longrightarrow> body (applyVariables env request) = body request)
   \<and> http_method (applyVariables env request) = http_method request
   \<and> http_request.more (applyVariables env request) = http_request.more request
   \<and> (url_parses env (replaceVariables env (url request))
        \<and> \<not> probe_times_out env (replaceVariables env (url request)) \<longrightarrow>
        snd (execute env baseDir request) =
          probe_call (replaceVariables env (url request))
            # snd (sendRequest env baseDir (applyVariables env request)))
   \<and> (contentType_of (headers (applyVariables env request)) = None \<longrightarrow>
        snd (sendRequest env baseDir (applyVariables env request)) =
          [\<lparr>call_url = replaceVariables env (url request), call_method = http_method request,
            call_headers = (\<lambda>key. map_option (replaceVariables env) (headers request key)),
            call_body = BodyValue (body (applyVariables env request)),
            call_agent = agent, call_timeout = requestTimeout\<rparr>])"
proof -
  have "(\<forall>s. body request \<noteq> JString s) \<longrightarrow> body (applyVariables env request) = body request"
    by (cases "body request") (simp_all add: applyVariables_def)
  moreover have "contentType_of (headers (applyVariables env request)) = None \<longrightarrow>
        snd (sendRequest env baseDir (applyVariables env request)) =
          [\<lparr>call_url = replaceVariables env (url request), call_method = http_method request,
            call_headers = (\<lambda>key. map_option (replaceVariables env) (headers request key)),
            call_body = BodyValue (body (applyVariables env request)),
            call_agent = agent, call_timeout = requestTimeout\<rparr>]"
    by (simp add: sendRequest_plain) (simp add: applyVariables_def)
  ultimately show ?thesis
    using execute_after_probe(1)[of env request baseDir]
    by (simp add: applyVariables_def)
qed

theorem applyVariables_fields_witness:
  "url (applyVariables test_env test_post) = ''https://example.test/ping''
   \<and> headers (applyVariables test_env test_post) ''X-Id'' = Some ''7''
   \<and> body (applyVariables test_env test_post) = JString ''7''
   \<and> body (applyVariables test_env (test_post\<lparr>body := JNumber 5\<rparr>)) = JNumber 5
   \<and> map call_url (snd (execute test_env ''/base'' test_post)) =
        [''https://example.test/ping'', ''https://example.test/ping'']
   \<and> map call_body (snd (execute test_env ''/base'' test_post)) =
        [BodyValue JUndefined, BodyValue (JString ''7'')]"
proof -
  have u: "replaceVariables test_env (url test_post) = ''https://example.test/ping''"
    by (simp add: test_env_def test_post_def)
  have p: "url_parses test_env ''https://example.test/ping''"
    by (simp add: test_env_def)
  have t: "\<not> probe_times_out test_env ''https://example.test/ping''"
    by (simp add: probe_times_out_def test_env_def)
  have h: "map_option (replaceVariables test_env) (headers test_post ''X-Id'') = Some ''7''"
    by (simp add: test_env_def test_post_def)
  have b: "body test_post = JString ''${id}''" "replaceVariables test_env ''${id}'' = ''7''"
    by (simp_all add: test_env_def test_post_def)
  have n: "\<forall>s. body (test_post\<lparr>body := JNumber 5\<rparr>) \<noteq> JString s"
    by simp
  have c: "contentType_of (headers (applyVariables test_env test_post)) = None"
    by (simp add: contentType_of_def str_or_def truthy_str_def applyVariables_def test_post_def)
  from applyVariables_fields[of test_env test_post "''/base''"]
    applyVariables_fields[of test_env "test_post\<lparr>body := JNumber 5\<rparr>" "''/base''"]
    u p t h b n c
  show ?thesis by (simp add: probe_call_def)
qed

text \<open>
  C8, as stated, fails for a structured body: the variable \<^verbatim>\<open>id\<close> is bound to 7, and the
  body \<^verbatim>\<open>{id: "${id}"}\<close> is dispatched with its placeholder.
\<close>

theorem structured_body_not_substituted:
  "replaceVariables test_env ''${id}'' = ''7''
   \<and> body (applyVariables test_env (test_post\<lparr>body := JObject [(''id'', JString ''${id}'')]\<rparr>)) =
       JObject [(''id'', JString ''${id}'')]
   \<and> map call_body (snd (execute test_env ''/base''
         (test_post\<lparr>body := JObject [(''id'', JString ''${id}'')]\<rparr>))) =
       [BodyValue JUndefined, BodyValue (JObject [(''id'', JString ''${id}'')])]"
proof -
  let ?r = "test_post\<lparr>body := JObject [(''id'', JString ''${id}'')]\<rparr>"
  have u: "replaceVariables test_env (url ?r) = ''https://example.test/ping''"
    by (simp add: test_env_def test_post_def)
  have p: "url_parses test_env ''https://example.test/ping''"
    by (simp add: test_env_def)
  have t: "\<not> probe_times_out test_env ''https://example.test/ping''"
    by (simp add: probe_times_out_def test_env_def)
  have c: "contentType_of (headers (applyVariables test_env ?r)) = None"
    by (simp add: contentType_of_def str_or_def truthy_str_def applyVariables_def test_post_def)
  have b: "body (applyVariables test_env ?r) = JObject [(''id'', JString ''${id}'')]"
    by (simp add: applyVariables_def)
  have "snd (execute test_env ''/base'' ?r) =
      probe_call ''https://example.test/ping'' # snd (sendRequest test_env ''/base'' (applyVariables test_env ?r))"
    using execute_after_probe(1)[of test_env ?r "''/base''"] u p t by simp
  then show ?thesis
    using b by (simp add: sendRequest_plain[OF c] probe_call_def) (simp add: test_env_def)
qed

subsection \<open>Multipart bodies\<close>










lemma test_file_part:
  "part_name file_part = Some ''f''"
  "file_content file_part = Some ''< a.txt''"
  "part_options file_part = \<lparr>filename = Some ''a.txt'', contentType = Some ''text/plain''\<rparr>"
  "CHR '' '' \<in> set ''< a.txt''" "second_token ''< a.txt'' = ''a.txt''"
  by code_simp+



lemma test_other_parts:
  "file_content (file_part_with ''a.txt'') = Some ''a.txt''"
  "CHR '' '' \<notin> set ''a.txt''"
  "file_content (file_part_with ''< my file.txt'') = Some ''< my file.txt''"
  "CHR '' '' \<in> set ''< my file.txt''"
  "second_token ''< my file.txt'' = ''my''"
  "part_name (file_part_with ''< my file.txt'') = Some ''f''"
  by code_simp+

lemma test_files:
  "path_resolve test_env dir p = dir @ ''/'' @ p"
  "existsSync test_env ''/base/a.txt''"
  "\<not> existsSync test_env ''/base/my''"
  "\<not> existsSync test_env ''/base/< a.txt''"
  by (simp_all add: test_env_def)

lemma test_json:
  "contentType_of [''CONTENT-TYPE'' \<mapsto> ''application/json''] = None"
  "contentType_of [''Content-Type'' \<mapsto> ''application/json''] = Some ''application/json''"
  "includes_str ''application/json'' ''application/json''"
  "contentType_of [''Content-type'' \<mapsto> ''multipart/form-data; boundary=XX''] = None"
  by code_simp+



text \<open>
  C10. For a file part (a file name is declared and the content is not empty) the path is
  the second of the space-separated tokens of the content, which has no space: a content
  without a space, or with an empty second token, fails with the invalid-file-path error;
  otherwise the path, resolved against the base directory, must exist, or the part fails
  with the not-found error of that token; and a part that declares a file name always has
  a name.
\<close>

theorem file_path_is_second_token:
  assumes "file_content part = Some c"
  shows "CHR '' '' \<notin> set (second_token c)
    \<and> (\<exists>nm. part_name part = Some nm \<and> buildFormData env baseDir formData part =
         (if CHR '' '' \<notin> set c \<or> second_token c = []
          then Inl (new_Error ''Invalid file path format.'')
          else if \<not> existsSync env (path_resolve env baseDir (second_token c))
          then Inl (new_Error (second_token c @ '' is not found.''))
          else Inr (formData @
            [(nm, FormFile (path_resolve env baseDir (second_token c)), part_options part)])))"
  using file_part_has_name[OF assms] buildFormData_file[OF assms] second_token_no_space
  by auto

theorem file_path_is_second_token_witness:
  "file_content file_part = Some ''< a.txt''
   \<and> buildFormData test_env ''/base'' [] file_part =
       Inr [(''f'', FormFile ''/base/a.txt'',
             \<lparr>filename = Some ''a.txt'', contentType = Some ''text/plain''\<rparr>)]
   \<and> file_content (file_part_with ''a.txt'') = Some ''a.txt''
   \<and> buildFormData test_env ''/base'' [] (file_part_with ''a.txt'') =
       Inl (new_Error ''Invalid file path format.'')
   \<and> file_content (file_part_with ''< my file.txt'') = Some ''< my file.txt''
   \<and> buildFormData test_env ''/base'' [] (file_part_with ''< my file.txt'') =
       Inl (new_Error ''my is not found.'')"
  using file_path_is_second_token[OF test_file_part(2), of test_env "''/base''" "[]"]
    file_path_is_second_token[OF test_other_parts(1), of test_env "''/base''" "[]"]
    file_path_is_second_token[OF test_other_parts(3), of test_env "''/base''" "[]"]
  by (simp add: test_file_part test_other_parts test_files)




subsection \<open>The key of the content type\<close>

text \<open>
  The content type is read under the keys \<^verbatim>\<open>Content-Type\<close> and \<^verbatim>\<open>content-type\<close> only: a
  request that has neither key is dispatched with its body and its headers unchanged,
  whatever it holds under a key of another casing.
\<close>

lemma content_type_two_keys_only:
  assumes "headers request ''Content-Type'' = None" and "headers request ''content-type'' = None"
  shows "request_data_of env baseDir request = Inr (BodyValue (body request), headers request)
    \<and> sendRequest env baseDir request =
        (fetch env \<lparr>call_url = url request, call_method = http_method request,
            call_headers = headers request, call_body = BodyValue (body request),
            call_agent = agent, call_timeout = requestTimeout\<rparr>,
         [\<lparr>call_url = url request, call_method = http_method request,
            call_headers = headers request, call_body = BodyValue (body request),
            call_agent = agent, call_timeout = requestTimeout\<rparr>])"
proof -
  from assms have "contentType_of (headers request) = None"
    by (simp add: contentType_of_def str_or_def truthy_str_def)
  then show ?thesis
    by (simp add: sendRequest_plain) (simp add: request_data_of_def)
qed

text \<open>
  C4. A content type stored under another casing of the key is not found. Under the key
  \<^verbatim>\<open>CONTENT-TYPE\<close> a JSON content type leaves the structured body as it is, where under
  \<^verbatim>\<open>Content-Type\<close> the body is serialized; under the key \<^verbatim>\<open>Content-type\<close> a multipart body
  is dispatched as its text, with the header kept.
\<close>

theorem content_type_key_casing:
  "headers (json_request ''CONTENT-TYPE'') ''CONTENT-TYPE'' = Some ''application/json''
   \<and> request_data_of test_env ''/base'' (json_request ''CONTENT-TYPE'') =
       Inr (BodyValue (JObject [(''a'', JNumber 1)]), headers (json_request ''CONTENT-TYPE''))
   \<and> request_data_of test_env ''/base'' (json_request ''Content-Type'') =
       Inr (BodyValue (JString ''{\"a\":1}''), headers (json_request ''Content-Type''))
   \<and> request_data_of test_env ''/base''
         (multipart_request\<lparr>headers := [''Content-type'' \<mapsto> ''multipart/form-data; boundary=XX'']\<rparr>) =
       Inr (BodyValue (JString multipart_body),
            [''Content-type'' \<mapsto> ''multipart/form-data; boundary=XX''])"
proof -
  let ?m = "multipart_request\<lparr>headers := [''Content-type'' \<mapsto> ''multipart/form-data; boundary=XX'']\<rparr>"
  have "JSON_stringify test_env (JObject [(''a'', JNumber 1)]) = JString ''{\"a\":1}''"
    by (simp add: test_env_def)
  then have j: "request_data_of test_env ''/base'' (json_request ''Content-Type'') =
       Inr (BodyValue (JString ''{\"a\":1}''), headers (json_request ''Content-Type''))"
    by (simp add: request_data_of_def json_request_def test_json)
  have u: "headers (json_request ''CONTENT-TYPE'') ''Content-Type'' = None"
    "headers (json_request ''CONTENT-TYPE'') ''content-type'' = None"
    "headers (json_request ''CONTENT-TYPE'') ''CONTENT-TYPE'' = Some ''application/json''"
    "body (json_request ''CONTENT-TYPE'') = JObject [(''a'', JNumber 1)]"
    by (simp_all add: json_request_def)
  have m: "headers ?m ''Content-Type'' = None" "headers ?m ''content-type'' = None"
    "body ?m = JString multipart_body"
    "headers ?m = [''Content-type'' \<mapsto> ''multipart/form-data; boundary=XX'']"
    by (simp_all add: multipart_request_def)
  from content_type_two_keys_only[OF u(1,2), of test_env "''/base''"]
    content_type_two_keys_only[OF m(1,2), of test_env "''/base''"] j u m
  show ?thesis by simp
qed

end
